theory Spec2Isabelle
  imports Complex_Main
begin

section \<open>JavaScript values\<close>

text \<open>
  The constructors of the library are TypeScript classes; at run time they receive
  arbitrary JavaScript values and test them with \<open>typeof\<close>, \<open>!\<close>, \<open>Array.isArray\<close>
  and \<open>instanceof\<close>. The values are modelled as they are at run time.

  A number is an IEEE double as far as the comparisons of this library see it: a finite
  value, one of the two infinities, or NaN. No arithmetic is performed on numbers by any
  constructor, only comparisons and \<open>Number.isInteger\<close>.

  A string is a list of characters. HOL characters are 8-bit, so the strings of the
  model are the JavaScript strings whose code units are below 256; \<open>length\<close> counts
  code units, as \<open>String.prototype.length\<close> does.

  An object carries the name of the class it was created by (\<open>''Object''\<close> for an
  object literal) and its own properties in the order of their assignment. A declared
  field that a constructor never assigns is not among them and reads as undefined.

  Functions, symbols and bigints are left out: every test of the constructors treats
  them as it treats a boolean.
\<close>

datatype number = NaN | Finite real | PosInfinity | NegInfinity

datatype jsval =
    JUndefined
  | JNull
  | JBool bool
  | JNum number
  | JStr string
  | JArr "jsval list"
  | JObj string "(string \<times> jsval) list"

datatype error = Error string | TypeError

text \<open>\<open>typeof v\<close>\<close>

fun typeof :: "jsval \<Rightarrow> string" where
  "typeof JUndefined = ''undefined''"
| "typeof JNull = ''object''"
| "typeof (JBool b) = ''boolean''"
| "typeof (JNum n) = ''number''"
| "typeof (JStr s) = ''string''"
| "typeof (JArr xs) = ''object''"
| "typeof (JObj c fs) = ''object''"

text \<open>\<open>!v\<close>: the falsy values are undefined, null, false, NaN, zero and the empty string.\<close>

fun falsy :: "jsval \<Rightarrow> bool" where
  "falsy JUndefined = True"
| "falsy JNull = True"
| "falsy (JBool b) = (\<not> b)"
| "falsy (JNum NaN) = True"
| "falsy (JNum (Finite r)) = (r = 0)"
| "falsy (JNum PosInfinity) = False"
| "falsy (JNum NegInfinity) = False"
| "falsy (JStr s) = (s = [])"
| "falsy (JArr xs) = False"
| "falsy (JObj c fs) = False"

text \<open>
  \<open>v.k\<close>: reading a property of undefined or null throws a TypeError; a property an
  object does not have reads as undefined. None of the property names the constructors
  read is a built-in property of a string, number, boolean or array.
\<close>

fun getp :: "jsval \<Rightarrow> string \<Rightarrow> error + jsval" where
  "getp JUndefined k = Inl TypeError"
| "getp JNull k = Inl TypeError"
| "getp (JObj c fs) k = Inr (case map_of fs k of None \<Rightarrow> JUndefined | Some v \<Rightarrow> v)"
| "getp v k = Inr JUndefined"

text \<open>Sequencing: an exception thrown by the first step ends the constructor.\<close>

definition andThen :: "error + 'a \<Rightarrow> ('a \<Rightarrow> error + 'b) \<Rightarrow> error + 'b" where
  "andThen m f = (case m of Inl e \<Rightarrow> Inl e | Inr x \<Rightarrow> f x)"

text \<open>
  The string, array and number behind a value. Each is read only behind the guard
  (\<open>typeof v === 'string'\<close>, \<open>Array.isArray(v)\<close>, \<open>typeof v === 'number'\<close>) that the
  source evaluates first.
\<close>

definition str_of :: "jsval \<Rightarrow> string" where
  "str_of v = (case v of JStr s \<Rightarrow> s | _ \<Rightarrow> [])"

definition arr_of :: "jsval \<Rightarrow> jsval list" where
  "arr_of v = (case v of JArr xs \<Rightarrow> xs | _ \<Rightarrow> [])"

definition num_of :: "jsval \<Rightarrow> number" where
  "num_of v = (case v of JNum n \<Rightarrow> n | _ \<Rightarrow> NaN)"

definition Array_isArray :: "jsval \<Rightarrow> bool" where
  "Array_isArray v = (case v of JArr xs \<Rightarrow> True | _ \<Rightarrow> False)"

text \<open>\<open>v instanceof C\<close>\<close>

definition instanceof :: "jsval \<Rightarrow> string \<Rightarrow> bool" where
  "instanceof v c = (case v of JObj c' fs \<Rightarrow> c' = c | _ \<Rightarrow> False)"

text \<open>\<open>xs.map(f)\<close> with a callback that may throw: the first exception ends the loop.\<close>

fun Array_map :: "('a \<Rightarrow> error + 'b) \<Rightarrow> 'a list \<Rightarrow> error + 'b list" where
  "Array_map f [] = Inr []"
| "Array_map f (x # xs) =
     andThen (f x) (\<lambda>y. andThen (Array_map f xs) (\<lambda>ys. Inr (y # ys)))"

text \<open>\<open>a < b\<close> and \<open>a <= b\<close> on numbers: every comparison with NaN is false.\<close>

fun js_lt :: "number \<Rightarrow> number \<Rightarrow> bool" where
  "js_lt NaN b = False"
| "js_lt a NaN = False"
| "js_lt (Finite x) (Finite y) = (x < y)"
| "js_lt a NegInfinity = False"
| "js_lt PosInfinity b = False"
| "js_lt NegInfinity b = True"
| "js_lt a PosInfinity = True"

fun js_le :: "number \<Rightarrow> number \<Rightarrow> bool" where
  "js_le NaN b = False"
| "js_le a NaN = False"
| "js_le (Finite x) (Finite y) = (x \<le> y)"
| "js_le NegInfinity b = True"
| "js_le a PosInfinity = True"
| "js_le a NegInfinity = False"
| "js_le PosInfinity b = False"

text \<open>\<open>a > b\<close> and \<open>a >= b\<close>, as the mirrored comparisons.\<close>

definition js_gt :: "number \<Rightarrow> number \<Rightarrow> bool" where
  "js_gt a b = js_lt b a"

definition js_ge :: "number \<Rightarrow> number \<Rightarrow> bool" where
  "js_ge a b = js_le b a"

text \<open>\<open>isNaN(n)\<close> on a number, and \<open>Number.isInteger(v)\<close>.\<close>

definition isNaN :: "number \<Rightarrow> bool" where
  "isNaN n = (n = NaN)"

definition Number_isInteger :: "jsval \<Rightarrow> bool" where
  "Number_isInteger v = (case v of JNum (Finite r) \<Rightarrow> of_int \<lfloor>r\<rfloor> = r | _ \<Rightarrow> False)"

subsection \<open>Strings\<close>

text \<open>
  White space as \<open>String.prototype.trim\<close> and the class escape \<open>\s\<close> see it, among
  the code units below 256: TAB, LF, VT, FF, CR, SPACE and NO-BREAK SPACE.
\<close>

definition is_white_space :: "char \<Rightarrow> bool" where
  "is_white_space c = ((of_char c :: nat) \<in> {9, 10, 11, 12, 13, 32, 160})"

definition trim :: "string \<Rightarrow> string" where
  "trim s = rev (dropWhile is_white_space (rev (dropWhile is_white_space s)))"

text \<open>\<open>s.includes(c)\<close> for a one-character needle.\<close>

definition String_includes :: "string \<Rightarrow> char \<Rightarrow> bool" where
  "String_includes s c = (c \<in> set s)"

section \<open>Regular expressions\<close>

text \<open>
  The two patterns of the library use character classes, escaped literals, sequence and
  the quantifiers \<open>+\<close>, \<open>*\<close> and \<open>?\<close>, anchored at both ends. \<open>Nothing\<close>, \<open>Empty\<close> and
  \<open>Alt\<close> are the residuals of matching.
\<close>

datatype class_item = One char | Range char char | White_space

datatype regex =
    Nothing
  | Empty
  | Lit char
  | Class "class_item list"
  | Not_class "class_item list"
  | Alt regex regex
  | Seq regex regex
  | Star regex
  | Plus regex
  | Opt regex

fun in_item :: "char \<Rightarrow> class_item \<Rightarrow> bool" where
  "in_item c (One d) = (c = d)"
| "in_item c (Range a b) = ((of_char a :: nat) \<le> of_char c \<and> (of_char c :: nat) \<le> of_char b)"
| "in_item c White_space = is_white_space c"

definition in_class :: "class_item list \<Rightarrow> char \<Rightarrow> bool" where
  "in_class items c = list_ex (in_item c) items"

fun nullable :: "regex \<Rightarrow> bool" where
  "nullable Nothing = False"
| "nullable Empty = True"
| "nullable (Lit c) = False"
| "nullable (Class items) = False"
| "nullable (Not_class items) = False"
| "nullable (Alt r s) = (nullable r \<or> nullable s)"
| "nullable (Seq r s) = (nullable r \<and> nullable s)"
| "nullable (Star r) = True"
| "nullable (Plus r) = nullable r"
| "nullable (Opt r) = True"

fun deriv :: "char \<Rightarrow> regex \<Rightarrow> regex" where
  "deriv c Nothing = Nothing"
| "deriv c Empty = Nothing"
| "deriv c (Lit d) = (if c = d then Empty else Nothing)"
| "deriv c (Class items) = (if in_class items c then Empty else Nothing)"
| "deriv c (Not_class items) = (if in_class items c then Nothing else Empty)"
| "deriv c (Alt r s) = Alt (deriv c r) (deriv c s)"
| "deriv c (Seq r s) =
     (if nullable r then Alt (Seq (deriv c r) s) (deriv c s) else Seq (deriv c r) s)"
| "deriv c (Star r) = Seq (deriv c r) (Star r)"
| "deriv c (Plus r) = Seq (deriv c r) (Star r)"
| "deriv c (Opt r) = deriv c r"

text \<open>\<open>/^r$/.test(s)\<close>: the whole string matches \<open>r\<close>.\<close>

fun test :: "regex \<Rightarrow> string \<Rightarrow> bool" where
  "test r [] = nullable r"
| "test r (c # cs) = test (deriv c r) cs"

text \<open>The words a pattern denotes, to state what \<open>test\<close> decides.\<close>

inductive_set star :: "string set \<Rightarrow> string set" for A :: "string set" where
  star_nil: "[] \<in> star A"
| star_app: "u \<in> A \<Longrightarrow> v \<in> star A \<Longrightarrow> u @ v \<in> star A"

definition conc :: "string set \<Rightarrow> string set \<Rightarrow> string set" where
  "conc A B = {u @ v | u v. u \<in> A \<and> v \<in> B}"

fun lang :: "regex \<Rightarrow> string set" where
  "lang Nothing = {}"
| "lang Empty = {[]}"
| "lang (Lit c) = {[c]}"
| "lang (Class items) = {[c] | c. in_class items c}"
| "lang (Not_class items) = {[c] | c. \<not> in_class items c}"
| "lang (Alt r s) = lang r \<union> lang s"
| "lang (Seq r s) = conc (lang r) (lang s)"
| "lang (Star r) = star (lang r)"
| "lang (Plus r) = conc (lang r) (star (lang r))"
| "lang (Opt r) = insert [] (lang r)"

section \<open>Wallet handshake: the authentication token\<close>

text \<open>
  \<open>_Data\<close> (auth.credentials.web3.request.namespace.ts): the pattern is
  \<^verbatim>\<open>/^[A-Za-z0-9-_=]+\.[A-Za-z0-9-_=]+\.?[A-Za-z0-9-_.+/=]*$/\<close>.
\<close>

definition segment_class :: "class_item list" where
  "segment_class =
     [Range CHR ''A'' CHR ''Z'', Range CHR ''a'' CHR ''z'', Range CHR ''0'' CHR ''9'',
      One CHR ''-'', One CHR ''_'', One CHR ''='']"

definition tail_class :: "class_item list" where
  "tail_class =
     [Range CHR ''A'' CHR ''Z'', Range CHR ''a'' CHR ''z'', Range CHR ''0'' CHR ''9'',
      One CHR ''-'', One CHR ''_'', One CHR ''.'', One CHR ''+'', One CHR ''/'',
      One CHR ''='']"

definition token_regex :: regex where
  "token_regex =
     Seq (Plus (Class segment_class))
    (Seq (Lit CHR ''.'')
    (Seq (Plus (Class segment_class))
    (Seq (Opt (Lit CHR ''.''))
         (Star (Class tail_class)))))"

definition new_Data :: "jsval \<Rightarrow> error + jsval" where
  "new_Data token =
     (if falsy token \<or> typeof token \<noteq> ''string''
      then Inl (Error ''Token must be a non-empty string'')
      else if \<not> test token_regex (str_of token)
      then Inl (Error ''Invalid token format'')
      else Inr (JObj ''_Data'' [(''token'', token)]))"

section \<open>Second factor\<close>

text \<open>The string enum \<open>IStatus\<close> (auth.two_factor.interface.ts), as the object it compiles to.\<close>

definition IStatus :: "(string \<times> jsval) list" where
  "IStatus =
     [(''VERIFIED'', JStr ''verified''),
      (''UNVERIFIED'', JStr ''unverified''),
      (''DISABLED'', JStr ''disabled'')]"

definition Object_values :: "(string \<times> jsval) list \<Rightarrow> jsval list" where
  "Object_values fs = map snd fs"

text \<open>\<open>xs.includes(v)\<close> on an array of primitives.\<close>

definition Array_includes :: "jsval list \<Rightarrow> jsval \<Rightarrow> bool" where
  "Array_includes xs v = (v \<in> set xs)"

text \<open>\<open>_Auth\<close>, the second-factor state record.\<close>

definition new_Auth :: "jsval \<Rightarrow> jsval \<Rightarrow> jsval \<Rightarrow> jsval \<Rightarrow> error + jsval" where
  "new_Auth status factorSid identity qr_code =
     (if typeof status \<noteq> ''object'' \<or> status = JNull
      then Inl (Error ''status must be a valid IAuth.ITwoFactor.IStatus object'')
      else if typeof factorSid \<noteq> ''string'' \<or> trim (str_of factorSid) = []
      then Inl (Error ''factorSid must be a non-empty string'')
      else if typeof identity \<noteq> ''string'' \<or> trim (str_of identity) = []
      then Inl (Error ''identity must be a non-empty string'')
      else if typeof qr_code \<noteq> ''string'' \<or> trim (str_of qr_code) = []
      then Inl (Error ''qr_code must be a non-empty string'')
      else Inr (JObj ''_Auth''
             [(''status'', status), (''factorSid'', factorSid),
              (''identity'', identity), (''qr_code'', qr_code)]))"

text \<open>\<open>_Security\<close>, the code a user supplies.\<close>

definition new_Security :: "jsval \<Rightarrow> error + jsval" where
  "new_Security code_2fa =
     (if typeof code_2fa \<noteq> ''number'' \<or> isNaN (num_of code_2fa)
         \<or> \<not> Number_isInteger code_2fa \<or> js_lt (num_of code_2fa) (Finite 0)
      then Inl (Error ''code_2fa must be a positive integer'')
      else Inr (JObj ''_Security'' [(''code_2fa'', code_2fa)]))"

section \<open>Token gate\<close>

text \<open>\<open>_Role\<close>: the emptiness test is \<open>!role.tokenId\<close>, with no trimming.\<close>

definition new_Role :: "jsval \<Rightarrow> error + jsval" where
  "new_Role role =
     andThen (getp role ''tokenId'') (\<lambda>tokenId.
     if falsy tokenId \<or> typeof tokenId \<noteq> ''string''
     then Inl (Error ''tokenId must be a non-empty string'')
     else andThen (getp role ''role'') (\<lambda>role_name.
     if falsy role_name \<or> typeof role_name \<noteq> ''string''
     then Inl (Error ''role must be a non-empty string'')
     else Inr (JObj ''_Role'' [(''tokenId'', tokenId), (''role'', role_name)])))"

text \<open>\<open>_Options\<close>: every element of \<open>roles\<close> has to be an instance of \<open>_Role\<close>.\<close>

definition new_Options :: "jsval \<Rightarrow> error + jsval" where
  "new_Options options =
     andThen (getp options ''enabled'') (\<lambda>enabled.
     if typeof enabled \<noteq> ''boolean''
     then Inl (Error ''enabled must be a boolean'')
     else andThen (getp options ''roles'') (\<lambda>roles.
     if \<not> Array_isArray roles \<or> length (arr_of roles) = 0
     then Inl (Error ''roles must be a non-empty array'')
     else andThen
       (Array_map
          (\<lambda>role. if \<not> instanceof role ''_Role''
                   then Inl (Error ''Each role must be an instance of _IRole'')
                   else Inr role)
          (arr_of roles))
       (\<lambda>mapped. Inr (JObj ''_Options'' [(''enabled'', enabled), (''roles'', JArr mapped)]))))"

text \<open>\<open>_Metadata\<close> of an owned token.\<close>

definition new_Metadata :: "jsval \<Rightarrow> error + jsval" where
  "new_Metadata metadata =
     andThen (getp metadata ''name'') (\<lambda>name.
     if typeof name \<noteq> ''string'' \<or> trim (str_of name) = []
     then Inl (Error ''name must be a non-empty string'')
     else andThen (getp metadata ''description'') (\<lambda>description.
     if typeof description \<noteq> ''string'' \<or> trim (str_of description) = []
     then Inl (Error ''description must be a non-empty string'')
     else andThen (getp metadata ''creator'') (\<lambda>creator.
     if typeof creator \<noteq> ''string'' \<or> trim (str_of creator) = []
     then Inl (Error ''creator must be a non-empty string'')
     else andThen (getp metadata ''properties'') (\<lambda>properties.
     if typeof properties \<noteq> ''object'' \<or> properties = JNull
     then Inl (Error ''properties must be a non-null object'')
     else andThen (getp metadata ''image'') (\<lambda>image.
     if typeof image \<noteq> ''string'' \<or> trim (str_of image) = []
     then Inl (Error ''image must be a non-empty string'')
     else Inr (JObj ''_Metadata''
            [(''name'', name), (''description'', description), (''creator'', creator),
             (''properties'', properties), (''image'', image)]))))))"

section \<open>Credentials\<close>

text \<open>\<open>_Tags\<close>, one key and value pair.\<close>

definition new_Tags :: "jsval \<Rightarrow> error + jsval" where
  "new_Tags tag =
     andThen (getp tag ''key'') (\<lambda>key.
     if typeof key \<noteq> ''string'' \<or> trim (str_of key) = []
     then Inl (Error ''Key must be a non-empty string'')
     else andThen (getp tag ''value'') (\<lambda>val.
     if typeof val \<noteq> ''string'' \<or> trim (str_of val) = []
     then Inl (Error ''Value must be a non-empty string'')
     else Inr (JObj ''_Tags'' [(''key'', key), (''value'', val)])))"

text \<open>The string enum \<open>IType\<close> of the user namespace.\<close>

definition IType :: "(string \<times> jsval) list" where
  "IType = [(''WEB2'', JStr ''web2''), (''WEB3'', JStr ''web3'')]"

text \<open>
  \<open>_Entity\<close> of the user namespace. The email test is \<open>includes('@')\<close>, and the tags
  are kept as they come once their key and value are strings.
\<close>

definition new_User_Entity :: "jsval \<Rightarrow> error + jsval" where
  "new_User_Entity entity =
     andThen (getp entity ''username'') (\<lambda>username.
     if typeof username \<noteq> ''string'' \<or> trim (str_of username) = []
     then Inl (Error ''Username must be a non-empty string'')
     else andThen (getp entity ''email'') (\<lambda>email.
     if typeof email \<noteq> ''string'' \<or> \<not> String_includes (str_of email) CHR ''@''
     then Inl (Error ''Invalid email format'')
     else andThen (getp entity ''created_at'') (\<lambda>created_at.
     if typeof created_at \<noteq> ''number'' \<or> js_le (num_of created_at) (Finite 0)
     then Inl (Error ''Created_at must be a positive number'')
     else andThen (getp entity ''updated_at'') (\<lambda>updated_at.
     if typeof updated_at \<noteq> ''number'' \<or> js_lt (num_of updated_at) (num_of created_at)
     then Inl (Error ''Updated_at must be a number greater than or equal to created_at'')
     else andThen (getp entity ''type'') (\<lambda>type.
     if \<not> Array_includes (Object_values IType) type
     then Inl (Error ''Invalid user type'')
     else andThen (getp entity ''tags'') (\<lambda>tags.
     if \<not> Array_isArray tags
     then Inl (Error ''Tags must be an array'')
     else andThen
       (Array_map
          (\<lambda>tag. andThen (getp tag ''key'') (\<lambda>key.
                  andThen (getp tag ''value'') (\<lambda>val.
                  if typeof key \<noteq> ''string'' \<or> typeof val \<noteq> ''string''
                  then Inl (Error ''Each tag must have a key and value of type string'')
                  else Inr tag)))
          (arr_of tags))
       (\<lambda>mapped. Inr (JObj ''User._Entity''
            [(''username'', username), (''email'', email), (''created_at'', created_at),
             (''updated_at'', updated_at), (''type'', type), (''tags'', JArr mapped)]))))))))"

text \<open>
  \<open>_Entity\<close> of the wallet namespace. The constructor checks \<open>balance\<close> and assigns
  only \<open>walletId\<close> and \<open>publicKey\<close>.
\<close>

definition new_Web3_Entity :: "jsval \<Rightarrow> error + jsval" where
  "new_Web3_Entity entity =
     andThen (getp entity ''walletId'') (\<lambda>walletId.
     if typeof walletId \<noteq> ''string'' \<or> trim (str_of walletId) = []
     then Inl (Error ''walletId must be a non-empty string'')
     else andThen (getp entity ''publicKey'') (\<lambda>publicKey.
     if typeof publicKey \<noteq> ''string'' \<or> trim (str_of publicKey) = []
     then Inl (Error ''publicKey must be a non-empty string'')
     else andThen (getp entity ''balance'') (\<lambda>balance.
     if \<not> Array_isArray balance
     then Inl (Error ''balance must be an array'')
     else Inr (JObj ''Web3._Entity'' [(''walletId'', walletId), (''publicKey'', publicKey)]))))"

text \<open>
  The login and signup DTOs share the pattern \<^verbatim>\<open>/^[^\s@]+@[^\s@]+\.[^\s@]+$/\<close>.
\<close>

definition emailRegex :: regex where
  "emailRegex =
     Seq (Plus (Not_class [White_space, One CHR ''@'']))
    (Seq (Lit CHR ''@'')
    (Seq (Plus (Not_class [White_space, One CHR ''@'']))
    (Seq (Lit CHR ''.'')
         (Plus (Not_class [White_space, One CHR ''@''])))))"

definition new_Login :: "jsval \<Rightarrow> error + jsval" where
  "new_Login login =
     andThen (getp login ''username'') (\<lambda>username.
     if typeof username \<noteq> ''string'' \<or> trim (str_of username) = []
     then Inl (Error ''Username must be a non-empty string'')
     else andThen (getp login ''email'') (\<lambda>email.
     if typeof email \<noteq> ''string'' \<or> \<not> test emailRegex (str_of email)
     then Inl (Error ''Invalid email format'')
     else andThen (getp login ''password'') (\<lambda>password.
     if typeof password \<noteq> ''string'' \<or> length (str_of password) < 8
     then Inl (Error ''Password must be a string with at least 8 characters'')
     else Inr (JObj ''_Login''
            [(''username'', username), (''email'', email), (''password'', password)]))))"

definition new_Signup :: "jsval \<Rightarrow> error + jsval" where
  "new_Signup signup =
     andThen (getp signup ''username'') (\<lambda>username.
     if typeof username \<noteq> ''string'' \<or> trim (str_of username) = []
     then Inl (Error ''Username must be a non-empty string'')
     else andThen (getp signup ''email'') (\<lambda>email.
     if typeof email \<noteq> ''string'' \<or> \<not> test emailRegex (str_of email)
     then Inl (Error ''Invalid email format'')
     else andThen (getp signup ''password'') (\<lambda>password.
     if typeof password \<noteq> ''string'' \<or> length (str_of password) < 8
     then Inl (Error ''Password must be a string with at least 8 characters'')
     else andThen (getp signup ''tags'') (\<lambda>tags.
     if \<not> Array_isArray tags \<or> length (arr_of tags) = 0
     then Inl (Error ''Tags must be a non-empty array'')
     else andThen (Array_map new_Tags (arr_of tags))
       (\<lambda>mapped. Inr (JObj ''_Signup''
            [(''username'', username), (''email'', email), (''password'', password),
             (''tags'', JArr mapped)]))))))"

section \<open>The claims' own words\<close>

text \<open>
  The predicates below are not code of the library. They spell out shapes that the
  specification names, so that an input can be shown to lie outside them.
\<close>

text \<open>\<open>s.split(d)\<close>: the pieces of \<open>s\<close> between the occurrences of \<open>d\<close>.\<close>

definition split_on :: "char \<Rightarrow> string \<Rightarrow> string list" where
  "split_on d s = foldr (\<lambda>c acc. if c = d then [] # acc else (c # hd acc) # tl acc) s [[]]"

definition base64url_alphabet :: "class_item list" where
  "base64url_alphabet =
     [Range CHR ''A'' CHR ''Z'', Range CHR ''a'' CHR ''z'', Range CHR ''0'' CHR ''9'',
      One CHR ''-'', One CHR ''_'']"

text \<open>Three dot-separated, non-empty segments of base64url characters.\<close>

definition spec_three_segments :: "string \<Rightarrow> bool" where
  "spec_three_segments t =
     (length (split_on CHR ''.'' t) = 3 \<and>
      list_all (\<lambda>seg. seg \<noteq> [] \<and> list_all (in_class base64url_alphabet) seg)
        (split_on CHR ''.'' t))"

text \<open>A non-empty local part and a non-empty domain part around a single \<open>@\<close>.\<close>

definition spec_local_at_domain :: "string \<Rightarrow> bool" where
  "spec_local_at_domain e =
     (length (split_on CHR ''@'' e) = 2 \<and> list_all (\<lambda>part. part \<noteq> []) (split_on CHR ''@'' e))"

section \<open>Basic facts\<close>

subsection \<open>Sequencing and loops\<close>

lemma andThen_Inl [simp]: "andThen (Inl e) f = Inl e"
  by (simp add: andThen_def)

lemma andThen_Inr [simp]: "andThen (Inr x) f = f x"
  by (simp add: andThen_def)

lemma andThen_eq_Inr: "andThen m f = Inr y \<longleftrightarrow> (\<exists>x. m = Inr x \<and> f x = Inr y)"
  by (cases m) simp_all

lemma Array_map_guard:
  "Array_map (\<lambda>x. if P x then Inl e else Inr x) xs = Inr ys \<longleftrightarrow> ys = xs \<and> list_all (\<lambda>x. \<not> P x) xs"
proof (induction xs arbitrary: ys)
  case Nil
  show ?case by auto
next
  case (Cons x xs)
  show ?case by (cases ys) (auto simp: andThen_eq_Inr Cons)
qed

subsection \<open>Run-time type tests\<close>

lemma Array_isArray_iff: "Array_isArray v \<longleftrightarrow> (\<exists>xs. v = JArr xs)"
  by (cases v) (simp_all add: Array_isArray_def)

lemma typeof_string_iff: "typeof v = ''string'' \<longleftrightarrow> (\<exists>s. v = JStr s)"
  by (cases v) simp_all

lemma typeof_number_iff: "typeof v = ''number'' \<longleftrightarrow> (\<exists>n. v = JNum n)"
  by (cases v) simp_all

lemma typeof_boolean_iff: "typeof v = ''boolean'' \<longleftrightarrow> (\<exists>b. v = JBool b)"
  by (cases v) simp_all

lemma Number_isInteger_iff:
  "Number_isInteger v \<longleftrightarrow> (\<exists>r. v = JNum (Finite r) \<and> r \<in> \<int>)"
  by (auto simp: Number_isInteger_def Ints_def split: jsval.splits number.splits)

subsection \<open>Trimming\<close>

lemma trim_empty_iff: "trim s = [] \<longleftrightarrow> list_all is_white_space s"
proof -
  have key: "dropWhile P (rev (dropWhile P s)) = [] \<longleftrightarrow> list_all P s" for P :: "char \<Rightarrow> bool"
  proof
    assume a: "dropWhile P (rev (dropWhile P s)) = []"
    have "\<forall>x \<in> set (dropWhile P s). P x"
      using a by (simp add: dropWhile_eq_Nil_conv)
    then have "dropWhile P s = []"
      by (metis hd_dropWhile list.set_sel(1))
    then show "list_all P s"
      by (simp add: dropWhile_eq_Nil_conv list_all_iff)
  next
    assume "list_all P s"
    then show "dropWhile P (rev (dropWhile P s)) = []"
      by (auto simp: list_all_iff dest: set_dropWhileD)
  qed
  show ?thesis unfolding trim_def rev_is_Nil_conv by (rule key)
qed

subsection \<open>What \<open>test\<close> decides\<close>

lemma nullable_lang: "nullable r \<longleftrightarrow> [] \<in> lang r"
  by (induction r) (auto simp: conc_def intro: star.intros)

lemma star_cons: "c # w \<in> star A \<longleftrightarrow> (\<exists>u v. w = u @ v \<and> c # u \<in> A \<and> v \<in> star A)"
proof
  assume "c # w \<in> star A"
  then show "\<exists>u v. w = u @ v \<and> c # u \<in> A \<and> v \<in> star A"
  proof (induction "c # w" rule: star.induct)
    case (star_app u v)
    then show ?case by (cases u) auto
  qed
next
  assume "\<exists>u v. w = u @ v \<and> c # u \<in> A \<and> v \<in> star A"
  then obtain u v where "w = u @ v" "c # u \<in> A" "v \<in> star A" by blast
  then show "c # w \<in> star A" using star.star_app[of "c # u" A v] by simp
qed

lemma conc_cons: "c # w \<in> conc A B \<longleftrightarrow>
   (\<exists>u v. w = u @ v \<and> c # u \<in> A \<and> v \<in> B) \<or> ([] \<in> A \<and> c # w \<in> B)"
  unfolding conc_def by (auto simp: Cons_eq_append_conv)

lemma lang_deriv: "w \<in> lang (deriv c r) \<longleftrightarrow> c # w \<in> lang r"
proof (induction r arbitrary: w)
  case (Seq r s)
  then show ?case by (auto simp: conc_cons nullable_lang) (auto simp: conc_def)
next
  case (Star r)
  then show ?case by (auto simp: star_cons) (auto simp: conc_def)
next
  case (Plus r)
  have "w \<in> lang (deriv c (Plus r)) \<longleftrightarrow> (\<exists>u v. w = u @ v \<and> c # u \<in> lang r \<and> v \<in> star (lang r))"
    using Plus by (auto simp: conc_def)
  also have "\<dots> \<longleftrightarrow> c # w \<in> lang (Plus r)"
    by (auto simp: conc_cons star_cons)
  finally show ?case .
qed (auto simp: conc_def)

lemma test_lang: "test r w \<longleftrightarrow> w \<in> lang r"
  by (induction w arbitrary: r) (simp_all add: nullable_lang lang_deriv)

lemma star_singletons: "w \<in> star {[c] | c. P c} \<longleftrightarrow> list_all P w"
proof (induction w)
  case Nil
  show ?case by (simp add: star.star_nil)
next
  case (Cons a w)
  show ?case by (auto simp: star_cons Cons)
qed

lemma star_singletons_eq: "star {[c] | c. P c} = {w. list_all P w}"
  using star_singletons by blast

lemma conc_iff: "w \<in> conc A B \<longleftrightarrow> (\<exists>u v. w = u @ v \<and> u \<in> A \<and> v \<in> B)"
  by (auto simp: conc_def)

lemma plus_singletons:
  "conc {[c] | c. P c} (star {[c] | c. P c}) = {w. w \<noteq> [] \<and> list_all P w}"
proof -
  have "w \<in> conc {[c] | c. P c} (star {[c] | c. P c}) \<longleftrightarrow> w \<noteq> [] \<and> list_all P w" for w
  proof (cases w)
    case Nil
    then show ?thesis by (simp add: conc_iff)
  next
    case (Cons a u)
    then show ?thesis by (simp add: conc_cons star_singletons)
  qed
  then show ?thesis by blast
qed

lemma lang_Plus_Class: "lang (Plus (Class X)) = {w. w \<noteq> [] \<and> list_all (in_class X) w}"
  by (simp add: plus_singletons)

lemma lang_Plus_Not_class:
  "lang (Plus (Not_class X)) = {w. w \<noteq> [] \<and> list_all (\<lambda>c. \<not> in_class X c) w}"
  by (simp add: plus_singletons)

lemma lang_Star_Class: "lang (Star (Class X)) = {w. list_all (in_class X) w}"
  by (simp add: star_singletons_eq)

lemma conc_iff5:
  "t \<in> conc A (conc B (conc C (conc D E))) \<longleftrightarrow>
     (\<exists>a x b d c. t = a @ x @ b @ d @ c \<and> a \<in> A \<and> x \<in> B \<and> b \<in> C \<and> d \<in> D \<and> c \<in> E)"
  unfolding conc_iff by blast

lemma test_token_regex:
  "test token_regex t \<longleftrightarrow>
     (\<exists>a b d c. t = a @ ''.'' @ b @ d @ c \<and>
        a \<noteq> [] \<and> list_all (in_class segment_class) a \<and>
        b \<noteq> [] \<and> list_all (in_class segment_class) b \<and>
        (d = [] \<or> d = ''.'') \<and> list_all (in_class tail_class) c)"
  unfolding test_lang token_regex_def
  apply (simp only: lang.simps(3,7,10) lang_Plus_Class lang_Star_Class conc_iff5)
  apply simp
  done

subsection \<open>The reference shapes at the specification's own examples\<close>

lemma spec_shapes_examples:
  "spec_three_segments ''aaa.bbb.ccc''"
  "\<not> spec_three_segments ''not-a-jwt''"
  "spec_local_at_domain ''john@example.com''"
  by (simp_all add: spec_three_segments_def spec_local_at_domain_def split_on_def
      base64url_alphabet_def in_class_def)

section \<open>The authentication token\<close>

text \<open>
  C1, as the code has it. Construction of \<open>_Data\<close> succeeds exactly for a string made of
  a non-empty segment over \<open>[A-Za-z0-9-_=]\<close>, a dot, a second non-empty segment over the
  same alphabet, an optional dot, and any run (also empty) over \<open>[A-Za-z0-9-_.+/=]\<close>;
  the object then holds the token unchanged. Every other input fails.
\<close>

theorem new_Data_accepts_iff:
  "new_Data token = Inr obj \<longleftrightarrow>
     (\<exists>a b d c. token = JStr (a @ ''.'' @ b @ d @ c) \<and>
        a \<noteq> [] \<and> list_all (in_class segment_class) a \<and>
        b \<noteq> [] \<and> list_all (in_class segment_class) b \<and>
        (d = [] \<or> d = ''.'') \<and> list_all (in_class tail_class) c \<and>
        obj = JObj ''_Data'' [(''token'', token)])"
proof (cases token)
  case (JStr t)
  then show ?thesis
    by (auto simp: new_Data_def str_of_def test_token_regex)
qed (auto simp: new_Data_def)

text \<open>
  C1 at concrete tokens: \<open>aaa.bbb.ccc\<close> is accepted and stored unchanged,
  \<open>not-a-jwt\<close> is rejected.
\<close>

theorem new_Data_accepts_iff_witness:
  "new_Data (JStr ''aaa.bbb.ccc'') = Inr (JObj ''_Data'' [(''token'', JStr ''aaa.bbb.ccc'')]) \<and>
   new_Data (JStr ''not-a-jwt'') = Inl (Error ''Invalid token format'')"
proof
  have "\<exists>a b d c. JStr ''aaa.bbb.ccc'' = JStr (a @ ''.'' @ b @ d @ c) \<and>
        a \<noteq> [] \<and> list_all (in_class segment_class) a \<and>
        b \<noteq> [] \<and> list_all (in_class segment_class) b \<and>
        (d = [] \<or> d = ''.'') \<and> list_all (in_class tail_class) c \<and>
        JObj ''_Data'' [(''token'', JStr ''aaa.bbb.ccc'')] = JObj ''_Data'' [(''token'', JStr ''aaa.bbb.ccc'')]"
    by (rule exI[of _ "''aaa''"], rule exI[of _ "''bbb''"], rule exI[of _ "''.''"],
        rule exI[of _ "''ccc''"])
       (simp add: segment_class_def tail_class_def in_class_def)
  then show "new_Data (JStr ''aaa.bbb.ccc'') = Inr (JObj ''_Data'' [(''token'', JStr ''aaa.bbb.ccc'')])"
    using new_Data_accepts_iff[of "JStr ''aaa.bbb.ccc''" "JObj ''_Data'' [(''token'', JStr ''aaa.bbb.ccc'')]"]
    by blast
next
  show "new_Data (JStr ''not-a-jwt'') = Inl (Error ''Invalid token format'')"
    by (simp add: new_Data_def token_regex_def segment_class_def tail_class_def in_class_def str_of_def)
qed

text \<open>
  C1 as stated fails: \<open>aa.bb\<close> has two segments, not three, and is accepted.
\<close>

theorem new_Data_two_segments_counterexample:
  "\<not> spec_three_segments ''aa.bb'' \<and>
   new_Data (JStr ''aa.bb'') = Inr (JObj ''_Data'' [(''token'', JStr ''aa.bb'')])"
  by (simp add: spec_three_segments_def split_on_def new_Data_def token_regex_def
      segment_class_def tail_class_def in_class_def str_of_def)

section \<open>The wallet entity\<close>

text \<open>
  C2, on the wallet entity. Whenever construction of the wallet \<open>_Entity\<close> succeeds,
  \<open>walletId\<close> and \<open>publicKey\<close> read back as given, the input's \<open>balance\<close> was an
  array, and the \<open>balance\<close> of the constructed object reads as undefined: the
  constructor validates the array and never assigns it.
\<close>

theorem new_Web3_Entity_balance_unset:
  "new_Web3_Entity entity = Inr obj \<Longrightarrow>
     getp obj ''walletId'' = getp entity ''walletId'' \<and>
     getp obj ''publicKey'' = getp entity ''publicKey'' \<and>
     (\<exists>xs. getp entity ''balance'' = Inr (JArr xs)) \<and>
     getp obj ''balance'' = Inr JUndefined"
  by (auto simp: new_Web3_Entity_def andThen_eq_Inr Array_isArray_iff split: if_splits)

text \<open>
  C2 at a concrete wallet holding one token: the object is built and its
  \<open>balance\<close> is undefined.
\<close>

theorem new_Web3_Entity_balance_unset_witness:
  "new_Web3_Entity (JObj ''Object''
      [(''walletId'', JStr ''0.0.1234''), (''publicKey'', JStr ''302a300506''),
       (''balance'', JArr [JObj ''Object'' [(''token_id'', JStr ''0.0.99''), (''serial_number'', JNum (Finite 1))]])])
     = Inr (JObj ''Web3._Entity'' [(''walletId'', JStr ''0.0.1234''), (''publicKey'', JStr ''302a300506'')]) \<and>
   getp (JObj ''Web3._Entity'' [(''walletId'', JStr ''0.0.1234''), (''publicKey'', JStr ''302a300506'')]) ''balance''
     = Inr JUndefined"
proof -
  let ?e = "JObj ''Object''
      [(''walletId'', JStr ''0.0.1234''), (''publicKey'', JStr ''302a300506''),
       (''balance'', JArr [JObj ''Object'' [(''token_id'', JStr ''0.0.99''), (''serial_number'', JNum (Finite 1))]])]"
  let ?o = "JObj ''Web3._Entity'' [(''walletId'', JStr ''0.0.1234''), (''publicKey'', JStr ''302a300506'')]"
  have ok: "new_Web3_Entity ?e = Inr ?o"
    by (simp add: new_Web3_Entity_def Array_isArray_def str_of_def trim_def is_white_space_def)
  from new_Web3_Entity_balance_unset[OF ok] ok show ?thesis by blast
qed

section \<open>The second-factor record and code\<close>

text \<open>
  C3, on the code. For every value of the enum \<open>IStatus\<close>, whatever the other three
  arguments, construction of \<open>_Auth\<close> throws the status error: the values of a string
  enum are strings and the constructor asks for \<open>typeof status === 'object'\<close>.
\<close>

theorem new_Auth_rejects_status_enum:
  "Array_includes (Object_values IStatus) status \<Longrightarrow>
     new_Auth status factorSid identity qr_code =
       Inl (Error ''status must be a valid IAuth.ITwoFactor.IStatus object'')"
  by (auto simp: Array_includes_def Object_values_def IStatus_def new_Auth_def)

text \<open>C3 at \<open>IStatus.UNVERIFIED\<close> with three non-empty strings.\<close>

theorem new_Auth_rejects_status_enum_witness:
  "Array_includes (Object_values IStatus) (JStr ''unverified'') \<and>
   new_Auth (JStr ''unverified'') (JStr ''YF1'') (JStr ''id@x.com'') (JStr ''otpauth://totp/x'') =
     Inl (Error ''status must be a valid IAuth.ITwoFactor.IStatus object'')"
proof -
  have m: "Array_includes (Object_values IStatus) (JStr ''unverified'')"
    by (simp add: Array_includes_def Object_values_def IStatus_def)
  from new_Auth_rejects_status_enum[OF m] m show ?thesis by blast
qed

text \<open>
  C9. Construction of \<open>_Security\<close> succeeds if and only if \<open>code_2fa\<close> is a number
  that is an integer and not below zero, and the object then holds that value
  unchanged. Zero is accepted; negative, fractional, NaN, infinite and non-number
  inputs are rejected.
\<close>

theorem new_Security_accepts_iff:
  "new_Security code_2fa = Inr obj \<longleftrightarrow>
     (\<exists>r. code_2fa = JNum (Finite r) \<and> r \<in> \<int> \<and> 0 \<le> r \<and>
          obj = JObj ''_Security'' [(''code_2fa'', code_2fa)])"
  by (auto simp: new_Security_def Number_isInteger_iff num_of_def isNaN_def)

text \<open>
  C9 at concrete inputs: 0 and 123456 are accepted and stored; -123, 3/2, NaN,
  Infinity, the string \<open>123456\<close> and undefined are rejected.
\<close>

theorem new_Security_accepts_iff_witness:
  "new_Security (JNum (Finite 0)) = Inr (JObj ''_Security'' [(''code_2fa'', JNum (Finite 0))]) \<and>
   new_Security (JNum (Finite 123456)) = Inr (JObj ''_Security'' [(''code_2fa'', JNum (Finite 123456))]) \<and>
   new_Security (JNum (Finite (- 123))) = Inl (Error ''code_2fa must be a positive integer'') \<and>
   new_Security (JNum (Finite (3 / 2))) = Inl (Error ''code_2fa must be a positive integer'') \<and>
   new_Security (JNum NaN) = Inl (Error ''code_2fa must be a positive integer'') \<and>
   new_Security (JNum PosInfinity) = Inl (Error ''code_2fa must be a positive integer'') \<and>
   new_Security (JStr ''123456'') = Inl (Error ''code_2fa must be a positive integer'') \<and>
   new_Security JUndefined = Inl (Error ''code_2fa must be a positive integer'')"
proof -
  have a: "new_Security (JNum (Finite 0)) = Inr (JObj ''_Security'' [(''code_2fa'', JNum (Finite 0))])"
    using new_Security_accepts_iff[of "JNum (Finite 0)" "JObj ''_Security'' [(''code_2fa'', JNum (Finite 0))]"]
    by simp
  have b: "new_Security (JNum (Finite 123456)) = Inr (JObj ''_Security'' [(''code_2fa'', JNum (Finite 123456))])"
    using new_Security_accepts_iff[of "JNum (Finite 123456)" "JObj ''_Security'' [(''code_2fa'', JNum (Finite 123456))]"]
    by simp
  have c: "new_Security (JNum (Finite (- 123))) = Inl (Error ''code_2fa must be a positive integer'')"
    by (simp add: new_Security_def num_of_def)
  have d: "new_Security (JNum (Finite (3 / 2))) = Inl (Error ''code_2fa must be a positive integer'')"
    by (simp add: new_Security_def num_of_def Number_isInteger_def isNaN_def)
  have e: "new_Security (JNum NaN) = Inl (Error ''code_2fa must be a positive integer'')"
    by (simp add: new_Security_def num_of_def isNaN_def)
  have f: "new_Security (JNum PosInfinity) = Inl (Error ''code_2fa must be a positive integer'')"
    by (simp add: new_Security_def num_of_def isNaN_def Number_isInteger_def)
  have g: "new_Security (JStr ''123456'') = Inl (Error ''code_2fa must be a positive integer'')"
    by (simp add: new_Security_def)
  have h: "new_Security JUndefined = Inl (Error ''code_2fa must be a positive integer'')"
    by (simp add: new_Security_def)
  from a b c d e f g h show ?thesis by blast
qed

section \<open>Token-gate options and roles\<close>

lemma Array_map_guard_ok:
  "list_all (\<lambda>x. \<not> P x) xs \<Longrightarrow> Array_map (\<lambda>x. if P x then Inl e else Inr x) xs = Inr xs"
  by (simp add: Array_map_guard)

text \<open>
  C4, as the code has it. With \<open>enabled: true\<close> and an empty \<open>roles\<close> list,
  construction of \<open>_Options\<close> fails with the message \<open>roles must be a non-empty array\<close>.
  Construction succeeds exactly when \<open>enabled\<close> is a boolean and \<open>roles\<close> is a
  non-empty array whose elements are all instances of \<open>_Role\<close>; both fields are then
  stored unchanged. A plain record is not such an instance.
\<close>

theorem new_Options_accepts_iff:
  "new_Options (JObj ''Object'' [(''enabled'', JBool True), (''roles'', JArr [])]) =
     Inl (Error ''roles must be a non-empty array'') \<and>
   (\<forall>options obj. new_Options options = Inr obj \<longleftrightarrow>
     (\<exists>b roles. getp options ''enabled'' = Inr (JBool b) \<and>
        getp options ''roles'' = Inr (JArr roles) \<and> roles \<noteq> [] \<and>
        list_all (\<lambda>role. instanceof role ''_Role'') roles \<and>
        obj = JObj ''_Options'' [(''enabled'', JBool b), (''roles'', JArr roles)]))"
proof (intro conjI allI)
  show "new_Options (JObj ''Object'' [(''enabled'', JBool True), (''roles'', JArr [])]) =
     Inl (Error ''roles must be a non-empty array'')"
    by (simp add: new_Options_def Array_isArray_def arr_of_def)
next
  fix options obj
  show "new_Options options = Inr obj \<longleftrightarrow>
     (\<exists>b roles. getp options ''enabled'' = Inr (JBool b) \<and>
        getp options ''roles'' = Inr (JArr roles) \<and> roles \<noteq> [] \<and>
        list_all (\<lambda>role. instanceof role ''_Role'') roles \<and>
        obj = JObj ''_Options'' [(''enabled'', JBool b), (''roles'', JArr roles)])"
  proof
    assume "new_Options options = Inr obj"
    then show "\<exists>b roles. getp options ''enabled'' = Inr (JBool b) \<and>
        getp options ''roles'' = Inr (JArr roles) \<and> roles \<noteq> [] \<and>
        list_all (\<lambda>role. instanceof role ''_Role'') roles \<and>
        obj = JObj ''_Options'' [(''enabled'', JBool b), (''roles'', JArr roles)]"
      by (auto simp: new_Options_def andThen_eq_Inr Array_isArray_iff typeof_boolean_iff
          Array_map_guard arr_of_def split: if_splits)
  next
    assume "\<exists>b roles. getp options ''enabled'' = Inr (JBool b) \<and>
        getp options ''roles'' = Inr (JArr roles) \<and> roles \<noteq> [] \<and>
        list_all (\<lambda>role. instanceof role ''_Role'') roles \<and>
        obj = JObj ''_Options'' [(''enabled'', JBool b), (''roles'', JArr roles)]"
    then show "new_Options options = Inr obj"
      by (clarsimp simp: new_Options_def Array_isArray_def arr_of_def Array_map_guard_ok)
  qed
qed

text \<open>
  C4 at the role \<open>{tokenId: "0x1", role: "member"}\<close>: \<open>new _Role\<close> turns the record
  into an instance, the options holding that instance are accepted, and the options
  with no role are rejected.
\<close>

theorem new_Options_accepts_iff_witness:
  "new_Role (JObj ''Object'' [(''tokenId'', JStr ''0x1''), (''role'', JStr ''member'')]) =
     Inr (JObj ''_Role'' [(''tokenId'', JStr ''0x1''), (''role'', JStr ''member'')]) \<and>
   new_Options (JObj ''Object''
      [(''enabled'', JBool True),
       (''roles'', JArr [JObj ''_Role'' [(''tokenId'', JStr ''0x1''), (''role'', JStr ''member'')]])]) =
     Inr (JObj ''_Options''
      [(''enabled'', JBool True),
       (''roles'', JArr [JObj ''_Role'' [(''tokenId'', JStr ''0x1''), (''role'', JStr ''member'')]])]) \<and>
   new_Options (JObj ''Object'' [(''enabled'', JBool True), (''roles'', JArr [])]) =
     Inl (Error ''roles must be a non-empty array'')"
proof -
  let ?r = "JObj ''_Role'' [(''tokenId'', JStr ''0x1''), (''role'', JStr ''member'')]"
  let ?opts = "JObj ''Object'' [(''enabled'', JBool True), (''roles'', JArr [?r])]"
  let ?obj = "JObj ''_Options'' [(''enabled'', JBool True), (''roles'', JArr [?r])]"
  have r: "new_Role (JObj ''Object'' [(''tokenId'', JStr ''0x1''), (''role'', JStr ''member'')]) = Inr ?r"
    by (simp add: new_Role_def)
  have "\<exists>b roles. getp ?opts ''enabled'' = Inr (JBool b) \<and>
        getp ?opts ''roles'' = Inr (JArr roles) \<and> roles \<noteq> [] \<and>
        list_all (\<lambda>role. instanceof role ''_Role'') roles \<and>
        ?obj = JObj ''_Options'' [(''enabled'', JBool b), (''roles'', JArr roles)]"
    by (rule exI[of _ True], rule exI[of _ "[?r]"]) (simp add: instanceof_def)
  then have a: "new_Options ?opts = Inr ?obj"
    using new_Options_accepts_iff by blast
  from new_Options_accepts_iff have e: "new_Options (JObj ''Object'' [(''enabled'', JBool True), (''roles'', JArr [])]) =
     Inl (Error ''roles must be a non-empty array'')" by blast
  from r a e show ?thesis by blast
qed

text \<open>
  C4 as stated fails: with the plain record \<open>{tokenId: "0x1", role: "member"}\<close> in
  \<open>roles\<close> the constructor throws.
\<close>

theorem new_Options_plain_role_counterexample:
  "new_Options (JObj ''Object''
      [(''enabled'', JBool True),
       (''roles'', JArr [JObj ''Object'' [(''tokenId'', JStr ''0x1''), (''role'', JStr ''member'')]])]) =
     Inl (Error ''Each role must be an instance of _IRole'')"
  by (simp add: new_Options_def Array_isArray_def arr_of_def instanceof_def)

text \<open>
  C10. Construction of \<open>_Role\<close> succeeds exactly when \<open>tokenId\<close> and \<open>role\<close> are
  non-empty strings, white space included, and stores both unchanged. The constructors
  of \<open>_Tags\<close> (key, value), of \<open>_Metadata\<close> (name, description, creator, image) and of
  the user \<open>_Entity\<close> (username) fail on a string made of white space only.
\<close>

theorem new_Role_no_trim:
  "(\<forall>role obj. new_Role role = Inr obj \<longleftrightarrow>
      (\<exists>t r. getp role ''tokenId'' = Inr (JStr t) \<and> t \<noteq> [] \<and>
             getp role ''role'' = Inr (JStr r) \<and> r \<noteq> [] \<and>
             obj = JObj ''_Role'' [(''tokenId'', JStr t), (''role'', JStr r)])) \<and>
   (\<forall>tag s. (getp tag ''key'' = Inr (JStr s) \<or> getp tag ''value'' = Inr (JStr s)) \<and>
        list_all is_white_space s \<longrightarrow> (\<exists>e. new_Tags tag = Inl e)) \<and>
   (\<forall>metadata s. (getp metadata ''name'' = Inr (JStr s) \<or> getp metadata ''description'' = Inr (JStr s) \<or>
         getp metadata ''creator'' = Inr (JStr s) \<or> getp metadata ''image'' = Inr (JStr s)) \<and>
        list_all is_white_space s \<longrightarrow> (\<exists>e. new_Metadata metadata = Inl e)) \<and>
   (\<forall>entity s. getp entity ''username'' = Inr (JStr s) \<and> list_all is_white_space s \<longrightarrow>
        new_User_Entity entity = Inl (Error ''Username must be a non-empty string''))"
proof (intro conjI allI impI)
  fix role obj
  show "new_Role role = Inr obj \<longleftrightarrow>
      (\<exists>t r. getp role ''tokenId'' = Inr (JStr t) \<and> t \<noteq> [] \<and>
             getp role ''role'' = Inr (JStr r) \<and> r \<noteq> [] \<and>
             obj = JObj ''_Role'' [(''tokenId'', JStr t), (''role'', JStr r)])"
  proof
    assume "new_Role role = Inr obj"
    then show "\<exists>t r. getp role ''tokenId'' = Inr (JStr t) \<and> t \<noteq> [] \<and>
             getp role ''role'' = Inr (JStr r) \<and> r \<noteq> [] \<and>
             obj = JObj ''_Role'' [(''tokenId'', JStr t), (''role'', JStr r)]"
      by (auto simp: new_Role_def andThen_eq_Inr typeof_string_iff split: if_splits)
  next
    assume "\<exists>t r. getp role ''tokenId'' = Inr (JStr t) \<and> t \<noteq> [] \<and>
             getp role ''role'' = Inr (JStr r) \<and> r \<noteq> [] \<and>
             obj = JObj ''_Role'' [(''tokenId'', JStr t), (''role'', JStr r)]"
    then show "new_Role role = Inr obj"
      by (clarsimp simp: new_Role_def)
  qed
next
  fix tag s
  assume "(getp tag ''key'' = Inr (JStr s) \<or> getp tag ''value'' = Inr (JStr s)) \<and> list_all is_white_space s"
  then have "\<not> (\<exists>obj. new_Tags tag = Inr obj)"
    by (auto simp: new_Tags_def andThen_eq_Inr trim_empty_iff str_of_def split: if_splits)
  then show "\<exists>e. new_Tags tag = Inl e"
    by (cases "new_Tags tag") auto
next
  fix metadata s
  assume "(getp metadata ''name'' = Inr (JStr s) \<or> getp metadata ''description'' = Inr (JStr s) \<or>
         getp metadata ''creator'' = Inr (JStr s) \<or> getp metadata ''image'' = Inr (JStr s)) \<and>
        list_all is_white_space s"
  then have "\<not> (\<exists>obj. new_Metadata metadata = Inr obj)"
    by (auto simp: new_Metadata_def andThen_eq_Inr trim_empty_iff str_of_def split: if_splits)
  then show "\<exists>e. new_Metadata metadata = Inl e"
    by (cases "new_Metadata metadata") auto
next
  fix entity s
  assume "getp entity ''username'' = Inr (JStr s) \<and> list_all is_white_space s"
  then show "new_User_Entity entity = Inl (Error ''Username must be a non-empty string'')"
    by (simp add: new_User_Entity_def trim_empty_iff str_of_def)
qed

text \<open>
  C10 at the one-space string: accepted by \<open>_Role\<close> for both fields, rejected as a tag
  key, a metadata name and a username; the empty \<open>tokenId\<close> is rejected.
\<close>

theorem new_Role_no_trim_witness:
  "new_Role (JObj ''Object'' [(''tokenId'', JStr '' ''), (''role'', JStr '' '')]) =
     Inr (JObj ''_Role'' [(''tokenId'', JStr '' ''), (''role'', JStr '' '')]) \<and>
   new_Role (JObj ''Object'' [(''tokenId'', JStr []), (''role'', JStr ''member'')]) =
     Inl (Error ''tokenId must be a non-empty string'') \<and>
   (\<exists>e. new_Tags (JObj ''Object'' [(''key'', JStr '' ''), (''value'', JStr ''admin'')]) = Inl e) \<and>
   (\<exists>e. new_Metadata (JObj ''Object''
      [(''name'', JStr '' ''), (''description'', JStr ''d''), (''creator'', JStr ''c''),
       (''properties'', JObj ''Object'' []), (''image'', JStr ''i'')]) = Inl e) \<and>
   new_User_Entity (JObj ''Object'' [(''username'', JStr '' '')]) =
     Inl (Error ''Username must be a non-empty string'')"
proof -
  note t = new_Role_no_trim
  have ws: "list_all is_white_space '' ''"
    by (simp add: is_white_space_def)
  let ?role = "JObj ''Object'' [(''tokenId'', JStr '' ''), (''role'', JStr '' '')]"
  have "\<exists>t r. getp ?role ''tokenId'' = Inr (JStr t) \<and> t \<noteq> [] \<and>
             getp ?role ''role'' = Inr (JStr r) \<and> r \<noteq> [] \<and>
             JObj ''_Role'' [(''tokenId'', JStr '' ''), (''role'', JStr '' '')] =
             JObj ''_Role'' [(''tokenId'', JStr t), (''role'', JStr r)]"
    by (rule exI[of _ "'' ''"], rule exI[of _ "'' ''"]) simp
  with t have a: "new_Role ?role = Inr (JObj ''_Role'' [(''tokenId'', JStr '' ''), (''role'', JStr '' '')])"
    by blast
  have b: "new_Role (JObj ''Object'' [(''tokenId'', JStr []), (''role'', JStr ''member'')]) =
     Inl (Error ''tokenId must be a non-empty string'')"
    by (simp add: new_Role_def)
  let ?tag = "JObj ''Object'' [(''key'', JStr '' ''), (''value'', JStr ''admin'')]"
  have "(getp ?tag ''key'' = Inr (JStr '' '') \<or> getp ?tag ''value'' = Inr (JStr '' '')) \<and>
        list_all is_white_space '' ''"
    using ws by simp
  with t have c: "\<exists>e. new_Tags ?tag = Inl e"
    by blast
  let ?m = "JObj ''Object''
      [(''name'', JStr '' ''), (''description'', JStr ''d''), (''creator'', JStr ''c''),
       (''properties'', JObj ''Object'' []), (''image'', JStr ''i'')]"
  have "(getp ?m ''name'' = Inr (JStr '' '') \<or> getp ?m ''description'' = Inr (JStr '' '') \<or>
         getp ?m ''creator'' = Inr (JStr '' '') \<or> getp ?m ''image'' = Inr (JStr '' '')) \<and>
        list_all is_white_space '' ''"
    using ws by simp
  with t have d: "\<exists>e. new_Metadata ?m = Inl e"
    by blast
  let ?u = "JObj ''Object'' [(''username'', JStr '' '')]"
  have "getp ?u ''username'' = Inr (JStr '' '') \<and> list_all is_white_space '' ''"
    using ws by simp
  with t have e: "new_User_Entity ?u = Inl (Error ''Username must be a non-empty string'')"
    by blast
  from a b c d e show ?thesis by blast
qed

section \<open>Login and signup\<close>

text \<open>
  C8. An accepted login or signup DTO holds the password it was given, a string of
  length at least 8; a login or signup input whose password is a string shorter than 8
  fails.
\<close>

theorem password_min_length:
  "(\<forall>login obj. new_Login login = Inr obj \<longrightarrow>
      (\<exists>p. getp login ''password'' = Inr (JStr p) \<and> getp obj ''password'' = Inr (JStr p) \<and>
           8 \<le> length p)) \<and>
   (\<forall>signup obj. new_Signup signup = Inr obj \<longrightarrow>
      (\<exists>p. getp signup ''password'' = Inr (JStr p) \<and> getp obj ''password'' = Inr (JStr p) \<and>
           8 \<le> length p)) \<and>
   (\<forall>login p. getp login ''password'' = Inr (JStr p) \<and> length p < 8 \<longrightarrow>
      (\<exists>e. new_Login login = Inl e)) \<and>
   (\<forall>signup p. getp signup ''password'' = Inr (JStr p) \<and> length p < 8 \<longrightarrow>
      (\<exists>e. new_Signup signup = Inl e))"
proof -
  have L: "\<exists>p. getp login ''password'' = Inr (JStr p) \<and> getp obj ''password'' = Inr (JStr p) \<and>
           8 \<le> length p" if "new_Login login = Inr obj" for login obj
    using that
    by (auto simp: new_Login_def andThen_eq_Inr typeof_string_iff str_of_def split: if_splits)
  have S: "\<exists>p. getp signup ''password'' = Inr (JStr p) \<and> getp obj ''password'' = Inr (JStr p) \<and>
           8 \<le> length p" if "new_Signup signup = Inr obj" for signup obj
    using that
    by (auto simp: new_Signup_def andThen_eq_Inr typeof_string_iff str_of_def split: if_splits)
  have L': "\<exists>e. new_Login login = Inl e"
    if "getp login ''password'' = Inr (JStr p) \<and> length p < 8" for login p
  proof (cases "new_Login login")
    case (Inr obj)
    from L[OF Inr] that show ?thesis by auto
  qed auto
  have S': "\<exists>e. new_Signup signup = Inl e"
    if "getp signup ''password'' = Inr (JStr p) \<and> length p < 8" for signup p
  proof (cases "new_Signup signup")
    case (Inr obj)
    from S[OF Inr] that show ?thesis by auto
  qed auto
  from L S L' S' show ?thesis by blast
qed

text \<open>
  C8 at concrete inputs: the password \<open>securePassword123\<close> is accepted and kept, the
  passwords \<open>short\<close> (login) and \<open>1234567\<close> (signup) are rejected.
\<close>

theorem password_min_length_witness:
  "new_Login (JObj ''Object''
      [(''username'', JStr ''john_doe''), (''email'', JStr ''john@example.com''),
       (''password'', JStr ''securePassword123'')]) =
    Inr (JObj ''_Login''
      [(''username'', JStr ''john_doe''), (''email'', JStr ''john@example.com''),
       (''password'', JStr ''securePassword123'')]) \<and>
   (\<exists>p. getp (JObj ''_Login''
      [(''username'', JStr ''john_doe''), (''email'', JStr ''john@example.com''),
       (''password'', JStr ''securePassword123'')]) ''password'' = Inr (JStr p) \<and> 8 \<le> length p) \<and>
   (\<exists>e. new_Login (JObj ''Object''
      [(''username'', JStr ''john_doe''), (''email'', JStr ''john@example.com''),
       (''password'', JStr ''short'')]) = Inl e) \<and>
   (\<exists>e. new_Signup (JObj ''Object''
      [(''username'', JStr ''john_doe''), (''email'', JStr ''john@example.com''),
       (''password'', JStr ''1234567''),
       (''tags'', JArr [JObj ''Object'' [(''key'', JStr ''role''), (''value'', JStr ''user'')]])]) = Inl e)"
proof -
  note t = password_min_length
  let ?l = "JObj ''Object''
      [(''username'', JStr ''john_doe''), (''email'', JStr ''john@example.com''),
       (''password'', JStr ''securePassword123'')]"
  let ?o = "JObj ''_Login''
      [(''username'', JStr ''john_doe''), (''email'', JStr ''john@example.com''),
       (''password'', JStr ''securePassword123'')]"
  have a: "new_Login ?l = Inr ?o"
    by (simp add: new_Login_def str_of_def trim_def emailRegex_def in_class_def is_white_space_def)
  with t have "\<exists>p. getp ?l ''password'' = Inr (JStr p) \<and> getp ?o ''password'' = Inr (JStr p) \<and>
           8 \<le> length p"
    by blast
  then have b: "\<exists>p. getp ?o ''password'' = Inr (JStr p) \<and> 8 \<le> length p"
    by blast
  let ?short = "JObj ''Object''
      [(''username'', JStr ''john_doe''), (''email'', JStr ''john@example.com''),
       (''password'', JStr ''short'')]"
  have "getp ?short ''password'' = Inr (JStr ''short'') \<and> length ''short'' < 8"
    by simp
  with t have c: "\<exists>e. new_Login ?short = Inl e"
    by blast
  let ?s = "JObj ''Object''
      [(''username'', JStr ''john_doe''), (''email'', JStr ''john@example.com''),
       (''password'', JStr ''1234567''),
       (''tags'', JArr [JObj ''Object'' [(''key'', JStr ''role''), (''value'', JStr ''user'')]])]"
  have "getp ?s ''password'' = Inr (JStr ''1234567'') \<and> length ''1234567'' < 8"
    by simp
  with t have d: "\<exists>e. new_Signup ?s = Inl e"
    by blast
  from a b c d show ?thesis by blast
qed

section \<open>The user entity\<close>

lemma Array_map_same:
  assumes "\<And>x y. f x = Inr y \<Longrightarrow> y = x"
  shows "Array_map f xs = Inr ys \<longleftrightarrow> ys = xs \<and> list_all (\<lambda>x. f x = Inr x) xs"
proof (induction xs arbitrary: ys)
  case Nil
  show ?case by auto
next
  case (Cons x xs)
  show ?case using assms by (cases ys) (auto simp: andThen_eq_Inr Cons)
qed

lemma guard_step:
  "andThen m (\<lambda>x. if bad x then Inl e else k x) = Inr y \<longleftrightarrow>
     (\<exists>x. m = Inr x \<and> \<not> bad x \<and> k x = Inr y)"
  by (cases m) auto

lemma tag_check_iff:
  "andThen (getp tag ''key'') (\<lambda>key. andThen (getp tag ''value'') (\<lambda>val.
      if typeof key \<noteq> ''string'' \<or> typeof val \<noteq> ''string'' then Inl e else Inr tag)) = Inr y
   \<longleftrightarrow> y = tag \<and> (\<exists>k v. getp tag ''key'' = Inr (JStr k) \<and> getp tag ''value'' = Inr (JStr v))"
  by (auto simp: andThen_eq_Inr typeof_string_iff split: if_splits)

lemma tags_map_iff:
  "Array_map (\<lambda>tag. andThen (getp tag ''key'') (\<lambda>key. andThen (getp tag ''value'') (\<lambda>val.
      if typeof key \<noteq> ''string'' \<or> typeof val \<noteq> ''string'' then Inl e else Inr tag))) tags = Inr ys
   \<longleftrightarrow> ys = tags \<and>
       list_all (\<lambda>tag. \<exists>k v. getp tag ''key'' = Inr (JStr k) \<and> getp tag ''value'' = Inr (JStr v)) tags"
  (is "Array_map ?f tags = Inr ys \<longleftrightarrow> _")
proof -
  have same: "?f x = Inr y \<Longrightarrow> y = x" for x y
    by (simp only: tag_check_iff)
  have ok: "?f x = Inr x \<longleftrightarrow>
      (\<exists>k v. getp x ''key'' = Inr (JStr k) \<and> getp x ''value'' = Inr (JStr v))" for x
    by (simp only: tag_check_iff) simp
  have "Array_map ?f tags = Inr ys \<longleftrightarrow> ys = tags \<and> list_all (\<lambda>x. ?f x = Inr x) tags"
    by (rule Array_map_same) (rule same)
  then show ?thesis
    by (simp only: ok)
qed

text \<open>What the constructor of the user \<open>_Entity\<close> accepts, and what it then builds.\<close>

lemma new_User_Entity_iff:
  "new_User_Entity entity = Inr obj \<longleftrightarrow>
     (\<exists>username email c u type tags.
        getp entity ''username'' = Inr (JStr username) \<and> \<not> list_all is_white_space username \<and>
        getp entity ''email'' = Inr (JStr email) \<and> CHR ''@'' \<in> set email \<and>
        getp entity ''created_at'' = Inr (JNum c) \<and> \<not> js_le c (Finite 0) \<and>
        getp entity ''updated_at'' = Inr (JNum u) \<and> \<not> js_lt u c \<and>
        getp entity ''type'' = Inr type \<and> type \<in> {JStr ''web2'', JStr ''web3''} \<and>
        getp entity ''tags'' = Inr (JArr tags) \<and>
        list_all (\<lambda>tag. \<exists>k v. getp tag ''key'' = Inr (JStr k) \<and> getp tag ''value'' = Inr (JStr v)) tags \<and>
        obj = JObj ''User._Entity''
            [(''username'', JStr username), (''email'', JStr email), (''created_at'', JNum c),
             (''updated_at'', JNum u), (''type'', type), (''tags'', JArr tags)])"
proof
  assume "new_User_Entity entity = Inr obj"
  then show "\<exists>username email c u type tags.
        getp entity ''username'' = Inr (JStr username) \<and> \<not> list_all is_white_space username \<and>
        getp entity ''email'' = Inr (JStr email) \<and> CHR ''@'' \<in> set email \<and>
        getp entity ''created_at'' = Inr (JNum c) \<and> \<not> js_le c (Finite 0) \<and>
        getp entity ''updated_at'' = Inr (JNum u) \<and> \<not> js_lt u c \<and>
        getp entity ''type'' = Inr type \<and> type \<in> {JStr ''web2'', JStr ''web3''} \<and>
        getp entity ''tags'' = Inr (JArr tags) \<and>
        list_all (\<lambda>tag. \<exists>k v. getp tag ''key'' = Inr (JStr k) \<and> getp tag ''value'' = Inr (JStr v)) tags \<and>
        obj = JObj ''User._Entity''
            [(''username'', JStr username), (''email'', JStr email), (''created_at'', JNum c),
             (''updated_at'', JNum u), (''type'', type), (''tags'', JArr tags)]"
    unfolding new_User_Entity_def guard_step andThen_eq_Inr tags_map_iff
    by (auto simp: typeof_string_iff typeof_number_iff Array_isArray_iff trim_empty_iff
        str_of_def num_of_def arr_of_def String_includes_def Array_includes_def
        Object_values_def IType_def)
next
  assume "\<exists>username email c u type tags.
        getp entity ''username'' = Inr (JStr username) \<and> \<not> list_all is_white_space username \<and>
        getp entity ''email'' = Inr (JStr email) \<and> CHR ''@'' \<in> set email \<and>
        getp entity ''created_at'' = Inr (JNum c) \<and> \<not> js_le c (Finite 0) \<and>
        getp entity ''updated_at'' = Inr (JNum u) \<and> \<not> js_lt u c \<and>
        getp entity ''type'' = Inr type \<and> type \<in> {JStr ''web2'', JStr ''web3''} \<and>
        getp entity ''tags'' = Inr (JArr tags) \<and>
        list_all (\<lambda>tag. \<exists>k v. getp tag ''key'' = Inr (JStr k) \<and> getp tag ''value'' = Inr (JStr v)) tags \<and>
        obj = JObj ''User._Entity''
            [(''username'', JStr username), (''email'', JStr email), (''created_at'', JNum c),
             (''updated_at'', JNum u), (''type'', type), (''tags'', JArr tags)]"
  then obtain username email c u type tags where h:
        "getp entity ''username'' = Inr (JStr username)" "\<not> list_all is_white_space username"
        "getp entity ''email'' = Inr (JStr email)" "CHR ''@'' \<in> set email"
        "getp entity ''created_at'' = Inr (JNum c)" "\<not> js_le c (Finite 0)"
        "getp entity ''updated_at'' = Inr (JNum u)" "\<not> js_lt u c"
        "getp entity ''type'' = Inr type" "type \<in> {JStr ''web2'', JStr ''web3''}"
        "getp entity ''tags'' = Inr (JArr tags)"
        "list_all (\<lambda>tag. \<exists>k v. getp tag ''key'' = Inr (JStr k) \<and> getp tag ''value'' = Inr (JStr v)) tags"
        "obj = JObj ''User._Entity''
            [(''username'', JStr username), (''email'', JStr email), (''created_at'', JNum c),
             (''updated_at'', JNum u), (''type'', type), (''tags'', JArr tags)]"
    by blast
  have m: "Array_map (\<lambda>tag. andThen (getp tag ''key'') (\<lambda>key. andThen (getp tag ''value'') (\<lambda>val.
      if typeof key \<noteq> ''string'' \<or> typeof val \<noteq> ''string''
      then Inl (Error ''Each tag must have a key and value of type string'') else Inr tag))) tags = Inr tags"
    unfolding tags_map_iff using h(12) by simp
  show "new_User_Entity entity = Inr obj"
    using h(1-11,13) m
    by (simp add: new_User_Entity_def trim_empty_iff str_of_def num_of_def arr_of_def
        Array_isArray_def String_includes_def Array_includes_def Object_values_def IType_def)
qed

text \<open>What the email pattern of the login and signup DTOs accepts.\<close>

lemma test_emailRegex:
  "test emailRegex e \<longleftrightarrow>
     (\<exists>l d t. e = l @ ''@'' @ d @ ''.'' @ t \<and>
        l \<noteq> [] \<and> list_all (\<lambda>c. \<not> in_class [White_space, One CHR ''@''] c) l \<and>
        d \<noteq> [] \<and> list_all (\<lambda>c. \<not> in_class [White_space, One CHR ''@''] c) d \<and>
        t \<noteq> [] \<and> list_all (\<lambda>c. \<not> in_class [White_space, One CHR ''@''] c) t)"
  unfolding test_lang emailRegex_def
  apply (simp only: lang.simps(3,7) lang_Plus_Not_class conc_iff5)
  apply simp
  done

text \<open>
  C5, as the code has it. The user \<open>_Entity\<close> rejects every input whose email is a
  string without \<open>@\<close>, and that is all it asks of the email. The shape
  \<open>local@domain.tld\<close>, each part non-empty and free of white space and \<open>@\<close>, is what
  the login DTO asks for. With the email \<open>john@example.com\<close> and the other fields valid,
  construction of the user \<open>_Entity\<close> succeeds.
\<close>

theorem user_email_checks:
  "(\<forall>entity e. getp entity ''email'' = Inr (JStr e) \<and> CHR ''@'' \<notin> set e \<longrightarrow>
      (\<exists>err. new_User_Entity entity = Inl err)) \<and>
   (\<forall>login obj. new_Login login = Inr obj \<longrightarrow>
      (\<exists>l d t. getp login ''email'' = Inr (JStr (l @ ''@'' @ d @ ''.'' @ t)) \<and>
         l \<noteq> [] \<and> d \<noteq> [] \<and> t \<noteq> [] \<and>
         list_all (\<lambda>c. \<not> is_white_space c \<and> c \<noteq> CHR ''@'') (l @ d @ t))) \<and>
   (\<forall>entity username c u type tags.
      getp entity ''username'' = Inr (JStr username) \<and> \<not> list_all is_white_space username \<and>
      getp entity ''email'' = Inr (JStr ''john@example.com'') \<and>
      getp entity ''created_at'' = Inr (JNum c) \<and> \<not> js_le c (Finite 0) \<and>
      getp entity ''updated_at'' = Inr (JNum u) \<and> \<not> js_lt u c \<and>
      getp entity ''type'' = Inr type \<and> type \<in> {JStr ''web2'', JStr ''web3''} \<and>
      getp entity ''tags'' = Inr (JArr tags) \<and>
      list_all (\<lambda>tag. \<exists>k v. getp tag ''key'' = Inr (JStr k) \<and> getp tag ''value'' = Inr (JStr v)) tags
      \<longrightarrow>
      new_User_Entity entity = Inr (JObj ''User._Entity''
            [(''username'', JStr username), (''email'', JStr ''john@example.com''),
             (''created_at'', JNum c), (''updated_at'', JNum u), (''type'', type),
             (''tags'', JArr tags)]))"
proof (intro conjI allI impI)
  fix entity e
  assume a: "getp entity ''email'' = Inr (JStr e) \<and> CHR ''@'' \<notin> set e"
  have "new_User_Entity entity \<noteq> Inr obj" for obj
    using a unfolding new_User_Entity_iff by auto
  then show "\<exists>err. new_User_Entity entity = Inl err"
    by (cases "new_User_Entity entity") auto
next
  fix login obj
  assume "new_Login login = Inr obj"
  then obtain e where e: "getp login ''email'' = Inr (JStr e)" "test emailRegex e"
    unfolding new_Login_def guard_step
    by (auto simp: typeof_string_iff str_of_def)
  from e(2) obtain l d t where
    "e = l @ ''@'' @ d @ ''.'' @ t" "l \<noteq> []" "d \<noteq> []" "t \<noteq> []"
    "list_all (\<lambda>c. \<not> in_class [White_space, One CHR ''@''] c) l"
    "list_all (\<lambda>c. \<not> in_class [White_space, One CHR ''@''] c) d"
    "list_all (\<lambda>c. \<not> in_class [White_space, One CHR ''@''] c) t"
    unfolding test_emailRegex by blast
  then show "\<exists>l d t. getp login ''email'' = Inr (JStr (l @ ''@'' @ d @ ''.'' @ t)) \<and>
         l \<noteq> [] \<and> d \<noteq> [] \<and> t \<noteq> [] \<and>
         list_all (\<lambda>c. \<not> is_white_space c \<and> c \<noteq> CHR ''@'') (l @ d @ t)"
    using e(1) by (auto simp: in_class_def)
next
  fix entity username c u type tags
  assume "getp entity ''username'' = Inr (JStr username) \<and> \<not> list_all is_white_space username \<and>
      getp entity ''email'' = Inr (JStr ''john@example.com'') \<and>
      getp entity ''created_at'' = Inr (JNum c) \<and> \<not> js_le c (Finite 0) \<and>
      getp entity ''updated_at'' = Inr (JNum u) \<and> \<not> js_lt u c \<and>
      getp entity ''type'' = Inr type \<and> type \<in> {JStr ''web2'', JStr ''web3''} \<and>
      getp entity ''tags'' = Inr (JArr tags) \<and>
      list_all (\<lambda>tag. \<exists>k v. getp tag ''key'' = Inr (JStr k) \<and> getp tag ''value'' = Inr (JStr v)) tags"
  then show "new_User_Entity entity = Inr (JObj ''User._Entity''
            [(''username'', JStr username), (''email'', JStr ''john@example.com''),
             (''created_at'', JNum c), (''updated_at'', JNum u), (''type'', type),
             (''tags'', JArr tags)])"
    unfolding new_User_Entity_iff by simp
qed

text \<open>
  C5 at concrete inputs: the user entity rejects \<open>invalid-email\<close> and accepts
  \<open>john@example.com\<close>; the login DTO accepts \<open>john@example.com\<close>, which has the shape,
  and rejects \<open>joe@\<close> and \<open>@example.com\<close>.
\<close>

theorem user_email_checks_witness:
  "(\<exists>err. new_User_Entity (JObj ''Object''
      [(''username'', JStr ''john_doe''), (''email'', JStr ''invalid-email''),
       (''created_at'', JNum (Finite 1625097600000)),
       (''updated_at'', JNum (Finite 1625184000000)),
       (''type'', JStr ''web2''), (''tags'', JArr [])]) = Inl err) \<and>
   new_User_Entity (JObj ''Object''
      [(''username'', JStr ''john_doe''), (''email'', JStr ''john@example.com''),
       (''created_at'', JNum (Finite 1625097600000)),
       (''updated_at'', JNum (Finite 1625184000000)),
       (''type'', JStr ''web2''), (''tags'', JArr [])]) =
     Inr (JObj ''User._Entity''
      [(''username'', JStr ''john_doe''), (''email'', JStr ''john@example.com''),
       (''created_at'', JNum (Finite 1625097600000)),
       (''updated_at'', JNum (Finite 1625184000000)),
       (''type'', JStr ''web2''), (''tags'', JArr [])]) \<and>
   (\<exists>l d t. ''john@example.com'' = l @ ''@'' @ d @ ''.'' @ t \<and> l \<noteq> [] \<and> d \<noteq> [] \<and> t \<noteq> []) \<and>
   new_Login (JObj ''Object''
      [(''username'', JStr ''john_doe''), (''email'', JStr ''joe@''),
       (''password'', JStr ''securePassword123'')]) = Inl (Error ''Invalid email format'') \<and>
   new_Login (JObj ''Object''
      [(''username'', JStr ''john_doe''), (''email'', JStr ''@example.com''),
       (''password'', JStr ''securePassword123'')]) = Inl (Error ''Invalid email format'')"
proof -
  note t = user_email_checks
  let ?bad = "JObj ''Object''
      [(''username'', JStr ''john_doe''), (''email'', JStr ''invalid-email''),
       (''created_at'', JNum (Finite 1625097600000)),
       (''updated_at'', JNum (Finite 1625184000000)),
       (''type'', JStr ''web2''), (''tags'', JArr [])]"
  have "getp ?bad ''email'' = Inr (JStr ''invalid-email'') \<and> CHR ''@'' \<notin> set ''invalid-email''"
    by simp
  with t have a: "\<exists>err. new_User_Entity ?bad = Inl err"
    by blast
  let ?good = "JObj ''Object''
      [(''username'', JStr ''john_doe''), (''email'', JStr ''john@example.com''),
       (''created_at'', JNum (Finite 1625097600000)),
       (''updated_at'', JNum (Finite 1625184000000)),
       (''type'', JStr ''web2''), (''tags'', JArr [])]"
  have "getp ?good ''username'' = Inr (JStr ''john_doe'') \<and> \<not> list_all is_white_space ''john_doe'' \<and>
      getp ?good ''email'' = Inr (JStr ''john@example.com'') \<and>
      getp ?good ''created_at'' = Inr (JNum (Finite 1625097600000)) \<and>
      \<not> js_le (Finite 1625097600000) (Finite 0) \<and>
      getp ?good ''updated_at'' = Inr (JNum (Finite 1625184000000)) \<and>
      \<not> js_lt (Finite 1625184000000) (Finite 1625097600000) \<and>
      getp ?good ''type'' = Inr (JStr ''web2'') \<and> JStr ''web2'' \<in> {JStr ''web2'', JStr ''web3''} \<and>
      getp ?good ''tags'' = Inr (JArr []) \<and>
      list_all (\<lambda>tag. \<exists>k v. getp tag ''key'' = Inr (JStr k) \<and> getp tag ''value'' = Inr (JStr v)) []"
    by (simp add: is_white_space_def)
  with t have b: "new_User_Entity ?good = Inr (JObj ''User._Entity''
      [(''username'', JStr ''john_doe''), (''email'', JStr ''john@example.com''),
       (''created_at'', JNum (Finite 1625097600000)),
       (''updated_at'', JNum (Finite 1625184000000)),
       (''type'', JStr ''web2''), (''tags'', JArr [])])"
    by blast
  let ?login = "JObj ''Object''
      [(''username'', JStr ''john_doe''), (''email'', JStr ''john@example.com''),
       (''password'', JStr ''securePassword123'')]"
  have "new_Login ?login = Inr (JObj ''_Login''
      [(''username'', JStr ''john_doe''), (''email'', JStr ''john@example.com''),
       (''password'', JStr ''securePassword123'')])"
    by (simp add: new_Login_def str_of_def trim_def emailRegex_def in_class_def is_white_space_def)
  with t have "\<exists>l d t. getp ?login ''email'' = Inr (JStr (l @ ''@'' @ d @ ''.'' @ t)) \<and>
         l \<noteq> [] \<and> d \<noteq> [] \<and> t \<noteq> [] \<and>
         list_all (\<lambda>c. \<not> is_white_space c \<and> c \<noteq> CHR ''@'') (l @ d @ t)"
    by blast
  then have c: "\<exists>l d t. ''john@example.com'' = l @ ''@'' @ d @ ''.'' @ t \<and> l \<noteq> [] \<and> d \<noteq> [] \<and> t \<noteq> []"
    by auto
  have d: "new_Login (JObj ''Object''
      [(''username'', JStr ''john_doe''), (''email'', JStr ''joe@''),
       (''password'', JStr ''securePassword123'')]) = Inl (Error ''Invalid email format'')"
    by (simp add: new_Login_def str_of_def trim_def emailRegex_def in_class_def is_white_space_def)
  have e: "new_Login (JObj ''Object''
      [(''username'', JStr ''john_doe''), (''email'', JStr ''@example.com''),
       (''password'', JStr ''securePassword123'')]) = Inl (Error ''Invalid email format'')"
    by (simp add: new_Login_def str_of_def trim_def emailRegex_def in_class_def is_white_space_def)
  from a b c d e show ?thesis by blast
qed

text \<open>
  C5 as stated fails: \<open>joe@\<close> has no domain part and \<open>@example.com\<close> no local part,
  and the user entity accepts both.
\<close>

theorem user_email_counterexample:
  "\<not> spec_local_at_domain ''joe@'' \<and> \<not> spec_local_at_domain ''@example.com'' \<and>
   new_User_Entity (JObj ''Object''
      [(''username'', JStr ''john_doe''), (''email'', JStr ''joe@''),
       (''created_at'', JNum (Finite 1625097600000)),
       (''updated_at'', JNum (Finite 1625184000000)),
       (''type'', JStr ''web2''), (''tags'', JArr [])]) =
     Inr (JObj ''User._Entity''
      [(''username'', JStr ''john_doe''), (''email'', JStr ''joe@''),
       (''created_at'', JNum (Finite 1625097600000)),
       (''updated_at'', JNum (Finite 1625184000000)),
       (''type'', JStr ''web2''), (''tags'', JArr [])]) \<and>
   new_User_Entity (JObj ''Object''
      [(''username'', JStr ''john_doe''), (''email'', JStr ''@example.com''),
       (''created_at'', JNum (Finite 1625097600000)),
       (''updated_at'', JNum (Finite 1625184000000)),
       (''type'', JStr ''web2''), (''tags'', JArr [])]) =
     Inr (JObj ''User._Entity''
      [(''username'', JStr ''john_doe''), (''email'', JStr ''@example.com''),
       (''created_at'', JNum (Finite 1625097600000)),
       (''updated_at'', JNum (Finite 1625184000000)),
       (''type'', JStr ''web2''), (''tags'', JArr [])])"
  by (simp add: spec_local_at_domain_def split_on_def new_User_Entity_def str_of_def num_of_def
      arr_of_def Array_isArray_def trim_def is_white_space_def String_includes_def
      Array_includes_def Object_values_def IType_def)

text \<open>
  C6, as the code has it. Every tag of an accepted user \<open>_Entity\<close> has a string key
  and a string value, and the tags are stored as given; an input with a tag whose key
  or value is not a string is rejected. Non-emptiness is asked only by the constructor
  of \<open>_Tags\<close>, whose accepted key and value are strings with a character that is not
  white space.
\<close>

theorem user_tags_checks:
  "(\<forall>entity obj. new_User_Entity entity = Inr obj \<longrightarrow>
      (\<exists>tags. getp entity ''tags'' = Inr (JArr tags) \<and> getp obj ''tags'' = Inr (JArr tags) \<and>
         list_all (\<lambda>tag. \<exists>k v. getp tag ''key'' = Inr (JStr k) \<and> getp tag ''value'' = Inr (JStr v))
           tags)) \<and>
   (\<forall>entity tags tag v. getp entity ''tags'' = Inr (JArr tags) \<and> tag \<in> set tags \<and>
        (getp tag ''key'' = Inr v \<or> getp tag ''value'' = Inr v) \<and> typeof v \<noteq> ''string'' \<longrightarrow>
      (\<exists>err. new_User_Entity entity = Inl err)) \<and>
   (\<forall>tag obj. new_Tags tag = Inr obj \<longrightarrow>
      (\<exists>k v. getp tag ''key'' = Inr (JStr k) \<and> getp tag ''value'' = Inr (JStr v) \<and>
         k \<noteq> [] \<and> v \<noteq> [] \<and> \<not> list_all is_white_space k \<and> \<not> list_all is_white_space v \<and>
         obj = JObj ''_Tags'' [(''key'', JStr k), (''value'', JStr v)]))"
proof (intro conjI allI impI)
  fix entity obj
  assume "new_User_Entity entity = Inr obj"
  then show "\<exists>tags. getp entity ''tags'' = Inr (JArr tags) \<and> getp obj ''tags'' = Inr (JArr tags) \<and>
         list_all (\<lambda>tag. \<exists>k v. getp tag ''key'' = Inr (JStr k) \<and> getp tag ''value'' = Inr (JStr v))
           tags"
    unfolding new_User_Entity_iff by auto
next
  fix entity tags tag v
  assume a: "getp entity ''tags'' = Inr (JArr tags) \<and> tag \<in> set tags \<and>
        (getp tag ''key'' = Inr v \<or> getp tag ''value'' = Inr v) \<and> typeof v \<noteq> ''string''"
  have "new_User_Entity entity \<noteq> Inr obj" for obj
  proof
    assume "new_User_Entity entity = Inr obj"
    then obtain tags' where t':
      "getp entity ''tags'' = Inr (JArr tags')"
      "list_all (\<lambda>tag. \<exists>k v. getp tag ''key'' = Inr (JStr k) \<and> getp tag ''value'' = Inr (JStr v)) tags'"
      unfolding new_User_Entity_iff by blast
    from t'(1) a have "tags' = tags" by simp
    moreover from a have "tag \<in> set tags" by simp
    ultimately have "\<exists>k w. getp tag ''key'' = Inr (JStr k) \<and> getp tag ''value'' = Inr (JStr w)"
      using t'(2) unfolding list_all_iff by blast
    then obtain k w where "getp tag ''key'' = Inr (JStr k)" "getp tag ''value'' = Inr (JStr w)"
      by blast
    with a have "v = JStr k \<or> v = JStr w" by auto
    with a show False by auto
  qed
  then show "\<exists>err. new_User_Entity entity = Inl err"
    by (cases "new_User_Entity entity") auto
next
  fix tag obj
  assume "new_Tags tag = Inr obj"
  then show "\<exists>k v. getp tag ''key'' = Inr (JStr k) \<and> getp tag ''value'' = Inr (JStr v) \<and>
         k \<noteq> [] \<and> v \<noteq> [] \<and> \<not> list_all is_white_space k \<and> \<not> list_all is_white_space v \<and>
         obj = JObj ''_Tags'' [(''key'', JStr k), (''value'', JStr v)]"
    unfolding new_Tags_def guard_step
    by (auto simp: typeof_string_iff trim_empty_iff str_of_def)
qed

text \<open>
  C6 at concrete inputs: the tag \<open>{key: "role", value: "admin"}\<close> is accepted by the user
  entity and by \<open>_Tags\<close>; a tag with the number 7 as key is rejected by the user entity.
\<close>

theorem user_tags_checks_witness:
  "(\<exists>tags. getp (JObj ''User._Entity''
      [(''username'', JStr ''john_doe''), (''email'', JStr ''john@example.com''),
       (''created_at'', JNum (Finite 1625097600000)),
       (''updated_at'', JNum (Finite 1625184000000)),
       (''type'', JStr ''web2''),
       (''tags'', JArr [JObj ''Object'' [(''key'', JStr ''role''), (''value'', JStr ''admin'')]])])
       ''tags'' = Inr (JArr tags) \<and>
     list_all (\<lambda>tag. \<exists>k v. getp tag ''key'' = Inr (JStr k) \<and> getp tag ''value'' = Inr (JStr v)) tags) \<and>
   (\<exists>err. new_User_Entity (JObj ''Object''
      [(''username'', JStr ''john_doe''), (''email'', JStr ''john@example.com''),
       (''created_at'', JNum (Finite 1625097600000)),
       (''updated_at'', JNum (Finite 1625184000000)),
       (''type'', JStr ''web2''),
       (''tags'', JArr [JObj ''Object'' [(''key'', JNum (Finite 7)), (''value'', JStr ''admin'')]])])
     = Inl err) \<and>
   (\<exists>k v. k \<noteq> [] \<and> v \<noteq> [] \<and>
      JObj ''_Tags'' [(''key'', JStr ''role''), (''value'', JStr ''admin'')] =
      JObj ''_Tags'' [(''key'', JStr k), (''value'', JStr v)])"
proof -
  note t = user_tags_checks
  let ?tag = "JObj ''Object'' [(''key'', JStr ''role''), (''value'', JStr ''admin'')]"
  let ?e = "JObj ''Object''
      [(''username'', JStr ''john_doe''), (''email'', JStr ''john@example.com''),
       (''created_at'', JNum (Finite 1625097600000)),
       (''updated_at'', JNum (Finite 1625184000000)),
       (''type'', JStr ''web2''), (''tags'', JArr [?tag])]"
  let ?o = "JObj ''User._Entity''
      [(''username'', JStr ''john_doe''), (''email'', JStr ''john@example.com''),
       (''created_at'', JNum (Finite 1625097600000)),
       (''updated_at'', JNum (Finite 1625184000000)),
       (''type'', JStr ''web2''), (''tags'', JArr [?tag])]"
  have "new_User_Entity ?e = Inr ?o"
    by (simp add: new_User_Entity_def str_of_def num_of_def arr_of_def Array_isArray_def trim_def
      is_white_space_def String_includes_def Array_includes_def Object_values_def IType_def)
  with t have "\<exists>tags. getp ?e ''tags'' = Inr (JArr tags) \<and> getp ?o ''tags'' = Inr (JArr tags) \<and>
         list_all (\<lambda>tag. \<exists>k v. getp tag ''key'' = Inr (JStr k) \<and> getp tag ''value'' = Inr (JStr v))
           tags"
    by blast
  then have a: "\<exists>tags. getp ?o ''tags'' = Inr (JArr tags) \<and>
     list_all (\<lambda>tag. \<exists>k v. getp tag ''key'' = Inr (JStr k) \<and> getp tag ''value'' = Inr (JStr v)) tags"
    by blast
  let ?badtag = "JObj ''Object'' [(''key'', JNum (Finite 7)), (''value'', JStr ''admin'')]"
  let ?bad = "JObj ''Object''
      [(''username'', JStr ''john_doe''), (''email'', JStr ''john@example.com''),
       (''created_at'', JNum (Finite 1625097600000)),
       (''updated_at'', JNum (Finite 1625184000000)),
       (''type'', JStr ''web2''), (''tags'', JArr [?badtag])]"
  have "getp ?bad ''tags'' = Inr (JArr [?badtag]) \<and> ?badtag \<in> set [?badtag] \<and>
        (getp ?badtag ''key'' = Inr (JNum (Finite 7)) \<or> getp ?badtag ''value'' = Inr (JNum (Finite 7))) \<and>
        typeof (JNum (Finite 7)) \<noteq> ''string''"
    by simp
  with t have b: "\<exists>err. new_User_Entity ?bad = Inl err"
    by blast
  have "new_Tags ?tag = Inr (JObj ''_Tags'' [(''key'', JStr ''role''), (''value'', JStr ''admin'')])"
    by (simp add: new_Tags_def str_of_def trim_def is_white_space_def)
  with t have "\<exists>k v. getp ?tag ''key'' = Inr (JStr k) \<and> getp ?tag ''value'' = Inr (JStr v) \<and>
         k \<noteq> [] \<and> v \<noteq> [] \<and> \<not> list_all is_white_space k \<and> \<not> list_all is_white_space v \<and>
         JObj ''_Tags'' [(''key'', JStr ''role''), (''value'', JStr ''admin'')] =
         JObj ''_Tags'' [(''key'', JStr k), (''value'', JStr v)]"
    by blast
  then have c: "\<exists>k v. k \<noteq> [] \<and> v \<noteq> [] \<and>
      JObj ''_Tags'' [(''key'', JStr ''role''), (''value'', JStr ''admin'')] =
      JObj ''_Tags'' [(''key'', JStr k), (''value'', JStr v)]"
    by blast
  from a b c show ?thesis by blast
qed

text \<open>
  C6 as stated fails: the user entity accepts a tag whose key is the empty string.
\<close>

theorem user_tags_empty_key_counterexample:
  "new_User_Entity (JObj ''Object''
      [(''username'', JStr ''john_doe''), (''email'', JStr ''john@example.com''),
       (''created_at'', JNum (Finite 1625097600000)),
       (''updated_at'', JNum (Finite 1625184000000)),
       (''type'', JStr ''web2''),
       (''tags'', JArr [JObj ''Object'' [(''key'', JStr []), (''value'', JStr ''admin'')]])]) =
     Inr (JObj ''User._Entity''
      [(''username'', JStr ''john_doe''), (''email'', JStr ''john@example.com''),
       (''created_at'', JNum (Finite 1625097600000)),
       (''updated_at'', JNum (Finite 1625184000000)),
       (''type'', JStr ''web2''),
       (''tags'', JArr [JObj ''Object'' [(''key'', JStr []), (''value'', JStr ''admin'')]])])"
  by (simp add: new_User_Entity_def str_of_def num_of_def arr_of_def Array_isArray_def trim_def
      is_white_space_def String_includes_def Array_includes_def Object_values_def IType_def)

text \<open>
  The timestamps of an accepted user entity: neither \<open>created_at <= 0\<close> nor
  \<open>updated_at < created_at\<close> holds. When no NaN is involved this is
  \<open>created_at > 0\<close> and \<open>updated_at >= created_at\<close>.
\<close>

lemma new_User_Entity_timestamps:
  assumes "new_User_Entity entity = Inr obj"
  shows "\<exists>c u. getp obj ''created_at'' = Inr (JNum c) \<and> getp obj ''updated_at'' = Inr (JNum u) \<and>
           getp entity ''created_at'' = Inr (JNum c) \<and> getp entity ''updated_at'' = Inr (JNum u) \<and>
           \<not> js_le c (Finite 0) \<and> \<not> js_lt u c \<and>
           (c \<noteq> NaN \<longrightarrow> js_gt c (Finite 0)) \<and>
           (c \<noteq> NaN \<and> u \<noteq> NaN \<longrightarrow> js_ge u c)"
proof -
  from assms obtain username email c u type tags where h:
    "getp entity ''created_at'' = Inr (JNum c)" "\<not> js_le c (Finite 0)"
    "getp entity ''updated_at'' = Inr (JNum u)" "\<not> js_lt u c"
    "obj = JObj ''User._Entity''
            [(''username'', JStr username), (''email'', JStr email), (''created_at'', JNum c),
             (''updated_at'', JNum u), (''type'', type), (''tags'', JArr tags)]"
    unfolding new_User_Entity_iff by blast
  have g: "c \<noteq> NaN \<longrightarrow> js_gt c (Finite 0)"
    using h(2) by (cases c) (auto simp: js_gt_def)
  have ge: "c \<noteq> NaN \<and> u \<noteq> NaN \<longrightarrow> js_ge u c"
    using h(4) by (cases c; cases u) (auto simp: js_ge_def)
  from h g ge show ?thesis by simp
qed

text \<open>
  C7, on the code. With \<open>created_at\<close> NaN the user \<open>_Entity\<close> is constructed, whatever
  number \<open>updated_at\<close> is: \<open>NaN <= 0\<close> and \<open>updated_at < NaN\<close> are both false. The
  object then satisfies neither \<open>created_at > 0\<close> nor \<open>updated_at >= created_at\<close>.
\<close>

theorem new_User_Entity_accepts_NaN:
  "new_User_Entity (JObj ''Object''
      [(''username'', JStr ''john_doe''), (''email'', JStr ''john@example.com''),
       (''created_at'', JNum NaN), (''updated_at'', JNum u),
       (''type'', JStr ''web2''), (''tags'', JArr [])]) =
    Inr (JObj ''User._Entity''
      [(''username'', JStr ''john_doe''), (''email'', JStr ''john@example.com''),
       (''created_at'', JNum NaN), (''updated_at'', JNum u),
       (''type'', JStr ''web2''), (''tags'', JArr [])]) \<and>
   \<not> js_gt NaN (Finite 0) \<and> \<not> js_ge u NaN"
proof -
  have "\<not> js_lt u NaN" by (cases u) simp_all
  moreover have "\<not> js_le NaN u" by simp
  ultimately show ?thesis
    by (simp add: new_User_Entity_def str_of_def num_of_def arr_of_def Array_isArray_def trim_def
      is_white_space_def String_includes_def Array_includes_def Object_values_def IType_def
      js_gt_def js_ge_def)
qed

text \<open>C7 at \<open>created_at: NaN, updated_at: 1625184000000\<close>.\<close>

theorem new_User_Entity_accepts_NaN_witness:
  "new_User_Entity (JObj ''Object''
      [(''username'', JStr ''john_doe''), (''email'', JStr ''john@example.com''),
       (''created_at'', JNum NaN), (''updated_at'', JNum (Finite 1625184000000)),
       (''type'', JStr ''web2''), (''tags'', JArr [])]) =
    Inr (JObj ''User._Entity''
      [(''username'', JStr ''john_doe''), (''email'', JStr ''john@example.com''),
       (''created_at'', JNum NaN), (''updated_at'', JNum (Finite 1625184000000)),
       (''type'', JStr ''web2''), (''tags'', JArr [])]) \<and>
   \<not> js_gt NaN (Finite 0) \<and> \<not> js_ge (Finite 1625184000000) NaN"
  by (rule new_User_Entity_accepts_NaN[of "Finite 1625184000000"])

end
